theory Spec2Isabelle
  imports Complex_Main
begin

section \<open>The indirect-method landing problem of \<^verbatim>\<open>simple_landing.py\<close>\<close>

text \<open>
  The class \<^verbatim>\<open>simple_landing\<close> turns a decision vector (five initial costates and a
  final time) into six boundary residuals by integrating the state and costate equations
  of a point-mass lander. This theory embeds its methods as HOL functions.

  Numbers: Python floats are modelled as \<^typ>\<open>real\<close>, that is, arithmetic without
  rounding, overflow, infinities or nan. A quotient whose divisor is zero has no real
  value, and what Python does with it depends on the operands. On built-in floats it
  raises \<^verbatim>\<open>ZeroDivisionError\<close>. On \<^verbatim>\<open>numpy.float64\<close> scalars it is nan or an
  infinity, with a warning, and the computation goes on. The entries of an augmented
  state are \<^verbatim>\<open>numpy.float64\<close> whenever the state is a row of the table of
  \<^verbatim>\<open>odeint\<close> or the array \<^verbatim>\<open>odeint\<close> hands to the right-hand side, which is the
  case at every call within the source (\<^verbatim>\<open>_eom\<close> under \<^verbatim>\<open>odeint\<close>,
  \<^verbatim>\<open>_hamiltonian(xf[-1])\<close>, \<^verbatim>\<open>plot\<close>); they are built-in floats when a caller passes
  a list. The functions that take an augmented state therefore take the kind of its
  entries too.

  The control law is modelled for both kinds at its unguarded division by
  \<^verbatim>\<open>lv_norm\<close>: there the quotient is \<open>0 / 0\<close>, which is nan on \<^verbatim>\<open>numpy.float64\<close>
  whatever the signs. At every other zero divisor (the mass, \<open>Isp\<close>, \<open>g0\<close>, \<open>c\<close>, the
  units) the model returns \<^verbatim>\<open>ZeroDivisionError\<close>, as built-in floats do. For
  \<^verbatim>\<open>numpy.float64\<close> entries with a zero mass and \<open>lv_norm \<noteq> 0\<close> that is an
  idealisation (the quotient is an infinity with the sign of the zero, which reals do
  not have); every statement below about such a quotient assumes its divisor nonzero.

  Sequences: Python lists and array rows are HOL lists. Unpacking
  \<^verbatim>\<open>a, b, c = xs\<close> raises \<^verbatim>\<open>ValueError\<close> unless the lengths agree, indexing out of
  range raises \<^verbatim>\<open>IndexError\<close>, and a local variable read before any assignment raises
  \<^verbatim>\<open>UnboundLocalError\<close>.

  Outcomes: a function of the model returns \<open>Inr\<close> of its value when the source
  returns a value made of real numbers. The other outcomes are on the left. Four of
  them are the exceptions just named. The fifth, \<open>NanReturned\<close>, is no exception: the
  control law has returned its list, but with nan entries, which no list of reals can
  hold; the constructor carries that list, \<open>None\<close> standing for nan. The callers of the
  control law pass this outcome on: what they go on to compute from a nan is not a real
  number either, and the model ends there.
\<close>

datatype operand = python_float | numpy_float64

datatype error =
  ZeroDivisionError | ValueError | IndexError | UnboundLocalError
  | NanReturned "real option list"

subsection \<open>The problem object\<close>

text \<open>
  The attributes of \<^verbatim>\<open>self\<close>, in the order \<^verbatim>\<open>__init__\<close> assigns them. The units come
  first and form a record of their own, because \<^verbatim>\<open>_non_dim\<close> is already called on the
  half-built object, when only the units and the scaled parameters exist.
\<close>

record units =
  R :: real
  V :: real
  M :: real
  A :: real
  T :: real
  F :: real

record simple_landing = units +
  state0_input :: "real list"
  statet_input :: "real list"
  Isp :: real
  c :: real
  g :: real
  G0 :: real
  state0 :: "real list"
  statet :: "real list"
  lb :: "real list"
  ub :: "real list"
  objfun_type :: string
  pinpoint :: bool

subsection \<open>Unit scaling: \<^verbatim>\<open>_non_dim\<close> and \<^verbatim>\<open>_dim_back\<close>\<close>

text \<open>\<^verbatim>\<open>xs[i] /= d\<close> and \<^verbatim>\<open>xs[i] *= d\<close> on a copy of the list.\<close>

definition div_at :: "real list \<Rightarrow> nat \<Rightarrow> real \<Rightarrow> error + real list" where
  "div_at xs i d =
     (if length xs \<le> i then Inl IndexError
      else if d = 0 then Inl ZeroDivisionError
      else Inr (xs[i := xs ! i / d]))"

definition mul_at :: "real list \<Rightarrow> nat \<Rightarrow> real \<Rightarrow> error + real list" where
  "mul_at xs i d =
     (if length xs \<le> i then Inl IndexError
      else Inr (xs[i := xs ! i * d]))"

text \<open>Statement after statement: the first error ends the method.\<close>

definition and_then :: "error + 'a \<Rightarrow> ('a \<Rightarrow> error + 'b) \<Rightarrow> error + 'b" where
  "and_then r k = (case r of Inl e \<Rightarrow> Inl e | Inr v \<Rightarrow> k v)"

definition non_dim :: "'a units_scheme \<Rightarrow> real list \<Rightarrow> error + real list" where
  "non_dim self state =
     and_then (div_at state 0 (R self)) (\<lambda>xnd.
     and_then (div_at xnd 1 (R self)) (\<lambda>xnd.
     and_then (div_at xnd 2 (V self)) (\<lambda>xnd.
     and_then (div_at xnd 3 (V self)) (\<lambda>xnd.
     and_then (div_at xnd 4 (M self)) (\<lambda>xnd.
     Inr xnd)))))"

definition dim_back :: "'a units_scheme \<Rightarrow> real list \<Rightarrow> error + real list" where
  "dim_back self state =
     and_then (mul_at state 0 (R self)) (\<lambda>xd.
     and_then (mul_at xd 1 (R self)) (\<lambda>xd.
     and_then (mul_at xd 2 (V self)) (\<lambda>xd.
     and_then (mul_at xd 3 (V self)) (\<lambda>xd.
     and_then (mul_at xd 4 (M self)) (\<lambda>xd.
     Inr xd)))))"

subsection \<open>Construction: \<^verbatim>\<open>__init__\<close>\<close>

text \<open>
  The divisors in the constructor are the literals just assigned (\<open>R = 1000\<close>,
  \<open>V = 100\<close> and what is computed from them), so these quotients cannot fail; the two
  calls of \<^verbatim>\<open>_non_dim\<close> can, on a list with fewer than five entries. The base-class
  constructor and \<^verbatim>\<open>set_bounds\<close> belong to PyGMO; of them only the stored bounds are
  kept. No argument is examined before it is stored.
\<close>

definition init ::
  "real list \<Rightarrow> real list \<Rightarrow> real \<Rightarrow> real \<Rightarrow> real \<Rightarrow> string \<Rightarrow> bool \<Rightarrow> error + simple_landing"
where
  "init state0' statet' Isp' c' g' objfun_type' pinpoint' =
     (let R0 = 1000; V0 = 100; M0 = 10000;
          A0 = (V0 * V0) / R0;
          T0 = R0 / V0;
          F0 = M0 * A0;
          u = \<lparr>R = R0, V = V0, M = M0, A = A0, T = T0, F = F0\<rparr>
      in and_then (non_dim u state0') (\<lambda>s0.
         and_then (non_dim u statet') (\<lambda>st.
         Inr \<lparr>R = R0, V = V0, M = M0, A = A0, T = T0, F = F0,
              state0_input = state0', statet_input = statet',
              Isp = Isp' / T0, c = c' / F0, g = g' / A0, G0 = (981 / 100) / A0,
              state0 = s0, statet = st,
              lb = replicate 5 (- 1) @ [1 / 10 ^ 4],
              ub = replicate 5 1 @ [100 / T0],
              objfun_type = objfun_type', pinpoint = pinpoint'\<rparr>)))"

subsection \<open>The running cost and the equations of motion\<close>

text \<open>
  \<^verbatim>\<open>_cost\<close>: the variable \<^verbatim>\<open>retval\<close> is assigned in the two branches of the
  \<^verbatim>\<open>if\<close>/\<^verbatim>\<open>elif\<close> chain only; there is no \<^verbatim>\<open>else\<close>.
\<close>

definition cost :: "simple_landing \<Rightarrow> real list \<Rightarrow> real list \<Rightarrow> error + real" where
  "cost self state controls =
     (if length controls \<noteq> 3 then Inl ValueError
      else let u = controls ! 0 in
        if objfun_type self = ''QC'' then
          (if Isp self = 0 \<or> G0 self = 0 then Inl ZeroDivisionError
           else Inr ((c self)\<^sup>2 / Isp self / G0 self * u\<^sup>2))
        else if objfun_type self = ''MOC'' then
          (if Isp self = 0 \<or> G0 self = 0 then Inl ZeroDivisionError
           else Inr (c self / Isp self / G0 self * u))
        else Inl UnboundLocalError)"

definition eom_state :: "simple_landing \<Rightarrow> real list \<Rightarrow> real list \<Rightarrow> error + real list" where
  "eom_state self state controls =
     (if length state \<noteq> 5 then Inl ValueError
      else if length controls \<noteq> 3 then Inl ValueError
      else let vx = state ! 2; vy = state ! 3; m = state ! 4;
               u = controls ! 0; stheta = controls ! 1; ctheta = controls ! 2
        in if m = 0 \<or> Isp self = 0 \<or> G0 self = 0 then Inl ZeroDivisionError
           else let dx = vx;
                    dy = vy;
                    dvx = c self * u / m * stheta;
                    dvy = c self * u / m * ctheta - g self;
                    dm = - c self * u / Isp self / G0 self
                in Inr [dx, dy, dvx, dvy, dm])"

definition eom_costate :: "simple_landing \<Rightarrow> real list \<Rightarrow> real list \<Rightarrow> error + real list" where
  "eom_costate self full_state controls =
     (if length full_state \<noteq> 10 then Inl ValueError
      else if length controls \<noteq> 3 then Inl ValueError
      else let m = full_state ! 4; lx = full_state ! 5; ly = full_state ! 6;
               lvx = full_state ! 7; lvy = full_state ! 8;
               u = controls ! 0; stheta = controls ! 1; ctheta = controls ! 2;
               lvdotitheta = lvx * stheta + lvy * ctheta
        in if m\<^sup>2 = 0 then Inl ZeroDivisionError
           else let dlx = 0;
                    dly = 0;
                    dlvx = - lx;
                    dlvy = - ly;
                    dlm = c self * u / m\<^sup>2 * lvdotitheta
                in Inr [dlx, dly, dlvx, dlvy, dlm])"

subsection \<open>The control law: \<^verbatim>\<open>_pontryagin_minimum_principle\<close>\<close>

text \<open>
  The two quotients by \<^verbatim>\<open>lv_norm\<close> are formed before the objective type is looked at,
  with no test of \<^verbatim>\<open>lv_norm\<close>. Since \<^verbatim>\<open>lv_norm\<close> comes from \<^verbatim>\<open>math.sqrt\<close> it is a
  built-in float, and it is zero only when \<^verbatim>\<open>lvx\<close> and \<^verbatim>\<open>lvy\<close> both are. On
  built-in entries \<^verbatim>\<open>- lvx / lv_norm\<close> then raises. On \<^verbatim>\<open>numpy.float64\<close> entries
  both quotients are nan and the method goes on to the chain with them: under
  \<^verbatim>\<open>"QC"\<close> the quotient by a zero mass is nan as well (its numerator holds the factor
  \<^verbatim>\<open>lv_norm\<close>) and so is the throttle, since \<^verbatim>\<open>min\<close> and \<^verbatim>\<open>max\<close> return their
  first argument when no comparison succeeds; under \<^verbatim>\<open>"MOC"\<close> a zero mass makes
  \<^verbatim>\<open>S\<close> nan, and neither \<^verbatim>\<open>if\<close> fires.

  The throttle \<^verbatim>\<open>u\<close> has no value until a branch assigns it, so it is an option
  in the \<^verbatim>\<open>"MOC"\<close> branches: \<open>None\<close> at the final \<^verbatim>\<open>return\<close> is the unbound
  variable. Under \<^verbatim>\<open>"MOC"\<close> the source has two separate \<^verbatim>\<open>if\<close>s, kept as they are.
\<close>

definition pontryagin_minimum_principle ::
  "simple_landing \<Rightarrow> operand \<Rightarrow> real list \<Rightarrow> error + real list"
where
  "pontryagin_minimum_principle self kind full_state =
     (if length full_state \<noteq> 10 then Inl ValueError
      else let m = full_state ! 4; lvx = full_state ! 7; lvy = full_state ! 8;
               lm = full_state ! 9;
               lv_norm = sqrt (lvx\<^sup>2 + lvy\<^sup>2)
        in if lv_norm = 0 then
             (case kind of
                python_float \<Rightarrow> Inl ZeroDivisionError
              | numpy_float64 \<Rightarrow>
                  let stheta = None;
                      ctheta = None
                  in if objfun_type self = ''QC'' then
                       (if c self = 0 then Inl ZeroDivisionError
                        else let u = (if m = 0 then None
                                      else Some (1 / c self
                                             * (lm + lv_norm * Isp self * G0 self / m)));
                                 u = map_option (\<lambda>u. min u 1) u;
                                 u = map_option (\<lambda>u. max u 0) u
                             in Inl (NanReturned [u, stheta, ctheta]))
                     else if objfun_type self = ''MOC'' then
                       (let S = (if m = 0 then None
                                 else Some (1 - lm - lv_norm / m * Isp self * G0 self));
                            u = (case S of None \<Rightarrow> None
                                 | Some S \<Rightarrow> if S \<ge> 0 then Some 0 else None);
                            u = (case S of None \<Rightarrow> u
                                 | Some S \<Rightarrow> if S < 0 then Some 1 else u)
                        in case u of None \<Rightarrow> Inl UnboundLocalError
                                   | Some u \<Rightarrow> Inl (NanReturned [Some u, stheta, ctheta]))
                     else Inl UnboundLocalError)
           else let stheta = - lvx / lv_norm;
                    ctheta = - lvy / lv_norm
             in if objfun_type self = ''QC'' then
                  (if c self = 0 \<or> m = 0 then Inl ZeroDivisionError
                   else let u = 1 / c self * (lm + lv_norm * Isp self * G0 self / m);
                            u = min u 1;
                            u = max u 0
                        in Inr [u, stheta, ctheta])
                else if objfun_type self = ''MOC'' then
                  (if m = 0 then Inl ZeroDivisionError
                   else let S = 1 - lm - lv_norm / m * Isp self * G0 self;
                            u = (if S \<ge> 0 then Some 0 else None);
                            u = (if S < 0 then Some 1 else u)
                        in case u of None \<Rightarrow> Inl UnboundLocalError
                                   | Some u \<Rightarrow> Inr [u, stheta, ctheta])
                else Inl UnboundLocalError)"

subsection \<open>The Hamiltonian and the right-hand side\<close>

text \<open>The loop of \<^verbatim>\<open>_hamiltonian\<close> over \<^verbatim>\<open>zip(costate, f_vett)\<close> is a fold from \<open>0\<close>.\<close>

definition hamiltonian :: "simple_landing \<Rightarrow> operand \<Rightarrow> real list \<Rightarrow> error + real" where
  "hamiltonian self kind full_state =
     (let state = take 5 full_state;
          costate = drop 5 full_state
      in and_then (pontryagin_minimum_principle self kind full_state) (\<lambda>controls.
         and_then (eom_state self state controls) (\<lambda>f_vett.
         let H = fold (\<lambda>(l, f) H. H + l * f) (zip costate f_vett) 0
         in and_then (cost self state controls) (\<lambda>k. Inr (H + k)))))"

definition eom ::
  "simple_landing \<Rightarrow> operand \<Rightarrow> real list \<Rightarrow> real \<Rightarrow> error + real list"
where
  "eom self kind full_state t =
     (let state = take 5 full_state
      in and_then (pontryagin_minimum_principle self kind full_state) (\<lambda>controls.
         and_then (eom_state self state controls) (\<lambda>dstate.
         and_then (eom_costate self full_state controls) (\<lambda>dcostate.
         Inr (dstate @ dcostate)))))"

subsection \<open>Shooting and the constraint vector\<close>

text \<open>
  \<^verbatim>\<open>odeint\<close> is SciPy's integrator, not code of this class, so it is a parameter of the
  model: it receives the right-hand side, the initial augmented state, the time points,
  the two tolerances and the step limit, and returns the table of states (one row per
  time point) with the information dictionary asked for by \<^verbatim>\<open>full_output=1\<close>. Of that
  dictionary the model keeps the status text; SciPy sets it to
  \<^verbatim>\<open>Integration successful.\<close> on success and to a description of the failure
  otherwise, and in both cases returns normally. An exception raised inside the
  right-hand side comes out of \<^verbatim>\<open>odeint\<close> as it is, hence the sum type. The state
  that \<^verbatim>\<open>odeint\<close> passes to the right-hand side is an array, and so is each row of
  the table: their entries are \<^verbatim>\<open>numpy.float64\<close>.
\<close>

record infodict =
  message :: string

type_synonym integrator =
  "(real list \<Rightarrow> real \<Rightarrow> error + real list) \<Rightarrow> real list \<Rightarrow> real list \<Rightarrow>
   real \<Rightarrow> real \<Rightarrow> nat \<Rightarrow> error + (real list list \<times> infodict)"

definition shoot ::
  "integrator \<Rightarrow> simple_landing \<Rightarrow> real list \<Rightarrow> error + (real list list \<times> infodict)"
where
  "shoot odeint self x =
     (if x = [] then Inl IndexError
      else odeint (\<lambda>a b. eom self numpy_float64 a b) (state0 self @ butlast x)
             [0, last x]
             (1 / 10 ^ 12) (1 / 10 ^ 12) 2000)"

text \<open>
  \<^verbatim>\<open>_compute_constraints_impl\<close> reads entries 1, 2, 3, 9 and then 0 or 5 of the last
  row and entries 1, 2, 3 (and 0) of the target, all before the Hamiltonian is called.
  The second component of what \<^verbatim>\<open>_shoot\<close> returns is bound to \<^verbatim>\<open>info\<close> and not used.
\<close>

definition compute_constraints_impl ::
  "integrator \<Rightarrow> simple_landing \<Rightarrow> real list \<Rightarrow> error + real list"
where
  "compute_constraints_impl odeint self x =
     and_then (shoot odeint self x) (\<lambda>(xf, info).
       if xf = [] \<or> length (last xf) < 10 \<or> length (statet self) < 4 then Inl IndexError
       else let xl = last xf;
                ceq = replicate 6 0;
                ceq = ceq[1 := (xl ! 1 - statet self ! 1) * 100];
                ceq = ceq[2 := (xl ! 2 - statet self ! 2) * 100];
                ceq = ceq[3 := (xl ! 3 - statet self ! 3) * 100];
                ceq = ceq[4 := xl ! 9 * 100];
                ceq = (if pinpoint self
                       then ceq[0 := (xl ! 0 - statet self ! 0) * 100]
                       else ceq[0 := xl ! 5 * 100])
            in and_then (hamiltonian self numpy_float64 xl) (\<lambda>H.
               Inr (ceq[5 := H * 100])))"

subsection \<open>Objects for the worked examples\<close>

text \<open>
  \<open>moon\<close> is the object that \<^verbatim>\<open>simple_landing()\<close> builds from the default arguments
  of \<^verbatim>\<open>__init__\<close> (lemma \<open>init_moon\<close> below). The examples need an integrator to run
  with. \<open>euler_step\<close> takes a single explicit Euler step from the first time point to
  the second and reports success; \<open>stalled\<close> gives up at once, as LSODA does when it
  reaches \<^verbatim>\<open>mxstep\<close>: it hands back the rows it has, here the initial state twice, and
  the status text of that failure.
\<close>

definition moon :: simple_landing where
  "moon =
     \<lparr>R = 1000, V = 100, M = 10000, A = 10, T = 10, F = 100000,
      state0_input = [0, 1000, 20, - 5, 10000],
      statet_input = [0, 0, 0, 0, 9758695805 / 1000000],
      Isp = 311 / 10, c = 11 / 25, g = 16229 / 100000, G0 = 981 / 1000,
      state0 = [0, 1, 1 / 5, - (1 / 20), 1],
      statet = [0, 0, 0, 0, 1951739161 / 2000000000],
      lb = [- 1, - 1, - 1, - 1, - 1, 1 / 10000],
      ub = [1, 1, 1, 1, 1, 10],
      objfun_type = ''QC'', pinpoint = False\<rparr>"

definition euler_step :: integrator where
  "euler_step func y0 t rtol atol mxstep =
     and_then (func y0 (t ! 0)) (\<lambda>d.
       Inr ([y0, map2 (\<lambda>y dy. y + (t ! 1 - t ! 0) * dy) y0 d],
            \<lparr>message = ''Integration successful.''\<rparr>))"


text \<open>
  \<open>ballistic\<close> is the coasting arc of \<open>moon\<close> from its initial state: throttle shut,
  the lander falls under gravity \<open>g = 16229 / 100000\<close> while all costates stay put.
\<close>

definition ballistic :: "real \<Rightarrow> real list" where
  "ballistic t =
     [t / 5, 1 - t / 20 - 16229 / 200000 * t\<^sup>2, 1 / 5, - (1 / 20) - 16229 / 100000 * t, 1,
      0, 0, 0, - 1, - 100]"

section \<open>Properties\<close>

subsection \<open>Sequencing and lists of known length\<close>

lemma and_then_Inr [simp]: "and_then (Inr v) k = k v"
  by (simp add: and_then_def)

lemma and_then_Inl [simp]: "and_then (Inl e) k = Inl e"
  by (simp add: and_then_def)

lemma length_five: "length s = 5 \<Longrightarrow> \<exists>x y vx vy m. s = [x, y, vx, vy, m]"
  by (auto simp: length_Suc_conv eval_nat_numeral)

subsection \<open>Unit scaling\<close>

lemma non_dim_value:
  assumes "5 \<le> length s" and "R u \<noteq> 0" and "V u \<noteq> 0" and "M u \<noteq> 0"
  shows "non_dim u s =
     Inr (s[0 := s ! 0 / R u, 1 := s ! 1 / R u, 2 := s ! 2 / V u,
            3 := s ! 3 / V u, 4 := s ! 4 / M u])"
  using assms by (auto simp add: non_dim_def div_at_def)

lemma non_dim_short:
  assumes "length s < 5" and "R u \<noteq> 0" and "V u \<noteq> 0" and "M u \<noteq> 0"
  shows "non_dim u s = Inl IndexError"
  using assms by (simp add: non_dim_def div_at_def)

lemma dim_back_value:
  assumes "5 \<le> length s"
  shows "dim_back u s =
     Inr (s[0 := s ! 0 * R u, 1 := s ! 1 * R u, 2 := s ! 2 * V u,
            3 := s ! 3 * V u, 4 := s ! 4 * M u])"
  using assms by (auto simp add: dim_back_def mul_at_def)

subsection \<open>Construction\<close>

lemma init_value:
  assumes "5 \<le> length s0" and "5 \<le> length st"
  shows "init s0 st isp thrust grav ot pp =
     Inr \<lparr>R = 1000, V = 100, M = 10000, A = 10, T = 10, F = 100000,
          state0_input = s0, statet_input = st,
          Isp = isp / 10, c = thrust / 100000, g = grav / 10, G0 = 981 / 1000,
          state0 = s0[0 := s0 ! 0 / 1000, 1 := s0 ! 1 / 1000, 2 := s0 ! 2 / 100,
                      3 := s0 ! 3 / 100, 4 := s0 ! 4 / 10000],
          statet = st[0 := st ! 0 / 1000, 1 := st ! 1 / 1000, 2 := st ! 2 / 100,
                      3 := st ! 3 / 100, 4 := st ! 4 / 10000],
          lb = [- 1, - 1, - 1, - 1, - 1, 1 / 10000],
          ub = [1, 1, 1, 1, 1, 10],
          objfun_type = ot, pinpoint = pp\<rparr>"
  using assms by (simp add: init_def Let_def non_dim_value eval_nat_numeral)

lemma init_short:
  assumes "length s0 < 5 \<or> length st < 5"
  shows "init s0 st isp thrust grav ot pp = Inl IndexError"
proof (cases "length s0 < 5")
  case True
  then show ?thesis by (simp add: init_def Let_def non_dim_short)
next
  case False
  with assms have "length st < 5" and "5 \<le> length s0" by auto
  then show ?thesis by (simp add: init_def Let_def non_dim_short non_dim_value)
qed

lemma init_units:
  assumes "init s0 st isp thrust grav ot pp = Inr self"
  shows "R self = 1000 \<and> V self = 100 \<and> M self = 10000"
proof (cases "length s0 < 5 \<or> length st < 5")
  case True
  with assms show ?thesis by (simp add: init_short)
next
  case False
  then have "5 \<le> length s0" and "5 \<le> length st" by auto
  from init_value [OF this, of isp thrust grav ot pp] assms show ?thesis by auto
qed

lemma init_moon:
  "init [0, 1000, 20, - 5, 10000] [0, 0, 0, 0, 9758695805 / 1000000] 311 44000
        (16229 / 10000) ''QC'' False = Inr moon"
  by (simp add: init_value moon_def)

text \<open>
  Claim C8. On every object that \<^verbatim>\<open>__init__\<close> has built, \<open>R = 1000\<close>, \<open>V = 100\<close> and
  \<open>M = 10000\<close>; for every state \<open>s\<close> of five numbers \<^verbatim>\<open>_non_dim\<close> divides the two
  positions by \<open>R\<close>, the two velocities by \<open>V\<close> and the mass by \<open>M\<close>,
  \<^verbatim>\<open>_dim_back\<close> multiplies by the same constants, and \<^verbatim>\<open>_dim_back\<close> applied to the
  result of \<^verbatim>\<open>_non_dim\<close> gives \<open>s\<close> back. The equality is exact, the numbers being
  reals.
\<close>

theorem dim_back_non_dim:
  assumes "init s0 st isp thrust grav ot pp = Inr self"
    and "length s = 5"
  shows "R self = 1000 \<and> V self = 100 \<and> M self = 10000
       \<and> non_dim self s =
           Inr [s ! 0 / R self, s ! 1 / R self, s ! 2 / V self, s ! 3 / V self, s ! 4 / M self]
       \<and> dim_back self s =
           Inr [s ! 0 * R self, s ! 1 * R self, s ! 2 * V self, s ! 3 * V self, s ! 4 * M self]
       \<and> and_then (non_dim self s) (dim_back self) = Inr s"
proof -
  have u: "R self = 1000 \<and> V self = 100 \<and> M self = 10000"
    using init_units [OF assms(1)] .
  obtain x y vx vy m where s: "s = [x, y, vx, vy, m]"
    using length_five [OF assms(2)] by blast
  have n: "non_dim self s = Inr [x / 1000, y / 1000, vx / 100, vy / 100, m / 10000]"
    using u by (simp add: non_dim_value s)
  have d: "dim_back self s = Inr [x * 1000, y * 1000, vx * 100, vy * 100, m * 10000]"
    using u by (simp add: dim_back_value s)
  have "dim_back self [x / 1000, y / 1000, vx / 100, vy / 100, m / 10000] = Inr s"
    using u by (simp add: dim_back_value s)
  with u n d show ?thesis by (simp add: s)
qed

theorem dim_back_non_dim_witness:
  "init [0, 1000, 20, - 5, 10000] [0, 0, 0, 0, 9758695805 / 1000000] 311 44000
        (16229 / 10000) ''QC'' False = Inr moon
   \<and> length [3, 1500, - 20, 5 / 2, 9000 :: real] = 5
   \<and> non_dim moon [3, 1500, - 20, 5 / 2, 9000] = Inr [3 / 1000, 3 / 2, - (1 / 5), 1 / 40, 9 / 10]
   \<and> dim_back moon [3, 1500, - 20, 5 / 2, 9000] = Inr [3000, 1500000, - 2000, 250, 90000000]
   \<and> and_then (non_dim moon [3, 1500, - 20, 5 / 2, 9000]) (dim_back moon)
       = Inr [3, 1500, - 20, 5 / 2, 9000]"
proof -
  have l: "length [3, 1500, - 20, 5 / 2, 9000 :: real] = 5" by simp
  note t = dim_back_non_dim [OF init_moon l]
  have r: "R moon = 1000" "V moon = 100" "M moon = 10000"
    by (simp_all add: moon_def)
  from t have n: "non_dim moon [3, 1500, - 20, 5 / 2, 9000]
      = Inr [3 / 1000, 3 / 2, - (1 / 5), 1 / 40, 9 / 10]"
    by (simp add: r)
  from t have d: "dim_back moon [3, 1500, - 20, 5 / 2, 9000]
      = Inr [3000, 1500000, - 2000, 250, 90000000]"
    by (simp add: r)
  from t have i: "and_then (non_dim moon [3, 1500, - 20, 5 / 2, 9000]) (dim_back moon)
      = Inr [3, 1500, - 20, 5 / 2, 9000]"
    by blast
  from init_moon l n d i show ?thesis by blast
qed

text \<open>
  Claim C9 says that a nonphysical configuration is turned away with an InvalidConfig
  error. The constructor has no check at all: here a negative specific impulse, a
  negative thrust and negative masses in both states go through, and the object that
  comes back carries them.
\<close>

theorem init_nonphysical_counterexample:
  "init [0, 1000, 20, - 5, - 10000] [0, 0, 0, 0, - 9000] (- 311) (- 44000)
        (16229 / 10000) ''QC'' False =
     Inr \<lparr>R = 1000, V = 100, M = 10000, A = 10, T = 10, F = 100000,
          state0_input = [0, 1000, 20, - 5, - 10000],
          statet_input = [0, 0, 0, 0, - 9000],
          Isp = - (311 / 10), c = - (11 / 25), g = 16229 / 100000, G0 = 981 / 1000,
          state0 = [0, 1, 1 / 5, - (1 / 20), - 1],
          statet = [0, 0, 0, 0, - (9 / 10)],
          lb = [- 1, - 1, - 1, - 1, - 1, 1 / 10000],
          ub = [1, 1, 1, 1, 1, 10],
          objfun_type = ''QC'', pinpoint = False\<rparr>"
  by (simp add: init_value)

text \<open>
  Claim C9 as amended. Construction examines none of its arguments. Whatever the
  specific impulse, the thrust, the gravity, the objective string and the pinpoint flag
  are, and whatever the entries of the two states are, it succeeds as soon as both
  states have at least five entries; the object stores \<open>Isp / 10\<close>, \<open>c / 100000\<close>,
  \<open>g / 10\<close>, the two states with their first five entries scaled, and the string and
  the flag as given. It fails, with \<^verbatim>\<open>IndexError\<close>, exactly when a state has fewer than
  five entries.
\<close>

theorem init_unvalidated:
  "(5 \<le> length s0 \<and> 5 \<le> length st \<longrightarrow>
      init s0 st isp thrust grav ot pp =
        Inr \<lparr>R = 1000, V = 100, M = 10000, A = 10, T = 10, F = 100000,
             state0_input = s0, statet_input = st,
             Isp = isp / 10, c = thrust / 100000, g = grav / 10, G0 = 981 / 1000,
             state0 = s0[0 := s0 ! 0 / 1000, 1 := s0 ! 1 / 1000, 2 := s0 ! 2 / 100,
                         3 := s0 ! 3 / 100, 4 := s0 ! 4 / 10000],
             statet = st[0 := st ! 0 / 1000, 1 := st ! 1 / 1000, 2 := st ! 2 / 100,
                         3 := st ! 3 / 100, 4 := st ! 4 / 10000],
             lb = [- 1, - 1, - 1, - 1, - 1, 1 / 10000],
             ub = [1, 1, 1, 1, 1, 10],
             objfun_type = ot, pinpoint = pp\<rparr>)
   \<and> (length s0 < 5 \<or> length st < 5 \<longrightarrow>
        init s0 st isp thrust grav ot pp = Inl IndexError)"
  using init_value [of s0 st isp thrust grav ot pp] init_short [of s0 st isp thrust grav ot pp]
  by blast

theorem init_unvalidated_witness:
  "5 \<le> length [0, 500, 0, 0, 0 :: real] \<and> 5 \<le> length [0, 0, 0, 0, 0 :: real]
   \<and> init [0, 500, 0, 0, 0] [0, 0, 0, 0, 0] 0 0 (- 1) ''MOC'' True =
       Inr \<lparr>R = 1000, V = 100, M = 10000, A = 10, T = 10, F = 100000,
            state0_input = [0, 500, 0, 0, 0], statet_input = [0, 0, 0, 0, 0],
            Isp = 0, c = 0, g = - (1 / 10), G0 = 981 / 1000,
            state0 = [0, 1 / 2, 0, 0, 0], statet = [0, 0, 0, 0, 0],
            lb = [- 1, - 1, - 1, - 1, - 1, 1 / 10000],
            ub = [1, 1, 1, 1, 1, 10],
            objfun_type = ''MOC'', pinpoint = True\<rparr>
   \<and> length [0, 500, 0 :: real] < 5
   \<and> init [0, 500, 0] [0, 0, 0, 0, 0] 311 44000 1 ''QC'' False = Inl IndexError"
  using init_unvalidated [of "[0, 500, 0, 0, 0]" "[0, 0, 0, 0, 0]" 0 0 "- 1" "''MOC''" True]
    init_unvalidated [of "[0, 500, 0]" "[0, 0, 0, 0, 0]" 311 44000 1 "''QC''" False]
  by simp

subsection \<open>The control law\<close>

text \<open>
  Claim C4. Under the objective \<^verbatim>\<open>"QC"\<close>, for every augmented state (ten numbers)
  with \<open>lv_norm > 0\<close> and \<open>m > 0\<close>, the control law returns the throttle
  \<open>u = clamp((\<lambda>m + lv_norm \<sqdot> Isp \<sqdot> g0 / m) / c, 0, 1)\<close> together with the direction
  \<open>(- \<lambda>vx / lv_norm, - \<lambda>vy / lv_norm)\<close>, and \<open>0 \<le> u \<le> 1\<close>. The scaled thrust \<open>c\<close>
  is taken to be nonzero: the quotient of the claim has no meaning otherwise.
\<close>

theorem quadratic_control_throttle:
  assumes "objfun_type self = ''QC''"
    and "length full_state = 10"
    and "c self \<noteq> 0"
    and "lv_norm = sqrt ((full_state ! 7)\<^sup>2 + (full_state ! 8)\<^sup>2)"
    and "0 < lv_norm"
    and "0 < full_state ! 4"
    and "u = max 0 (min 1
           ((full_state ! 9 + lv_norm * Isp self * G0 self / full_state ! 4) / c self))"
  shows "pontryagin_minimum_principle self kind full_state =
           Inr [u, - full_state ! 7 / lv_norm, - full_state ! 8 / lv_norm]
         \<and> 0 \<le> u \<and> u \<le> 1"
proof -
  have nz: "lv_norm \<noteq> 0" "full_state ! 4 \<noteq> 0"
    using \<open>0 < lv_norm\<close> \<open>0 < full_state ! 4\<close> by simp_all
  have "pontryagin_minimum_principle self kind full_state =
           Inr [u, - full_state ! 7 / lv_norm, - full_state ! 8 / lv_norm]"
    unfolding pontryagin_minimum_principle_def Let_def assms(4) [symmetric]
    using nz assms(1,2,3,7) by (simp add: max.commute min.commute)
  moreover have "0 \<le> u" and "u \<le> 1"
    using assms(7) by simp_all
  ultimately show ?thesis by simp
qed

theorem quadratic_control_throttle_witness:
  "objfun_type moon = ''QC''
   \<and> length [0, 1, 1 / 5, - (1 / 20), 1, 0, 0, 0, - 1, - (302891 / 10000) :: real] = 10
   \<and> c moon \<noteq> 0
   \<and> (1::real) = sqrt ((0::real)\<^sup>2 + (- 1)\<^sup>2)
   \<and> (1 / 2 :: real) = max 0 (min 1 ((- (302891 / 10000) + 1 * (311 / 10) * (981 / 1000) / 1) / (11 / 25)))
   \<and> pontryagin_minimum_principle moon numpy_float64
        [0, 1, 1 / 5, - (1 / 20), 1, 0, 0, 0, - 1, - (302891 / 10000)] = Inr [1 / 2, 0, 1]"
proof -
  have q: "objfun_type moon = ''QC''" and cz: "c moon \<noteq> 0"
    by (simp_all add: moon_def)
  have l: "length [0, 1, 1 / 5, - (1 / 20), 1, 0, 0, 0, - 1, - (302891 / 10000) :: real] = 10"
    by simp
  have n: "(1::real) =
      sqrt (([0, 1, 1 / 5, - (1 / 20), 1, 0, 0, 0, - 1, - (302891 / 10000)] ! 7)\<^sup>2
          + ([0, 1, 1 / 5, - (1 / 20), 1, 0, 0, 0, - 1, - (302891 / 10000)] ! 8)\<^sup>2)"
    by simp
  have p: "(0::real) < 1" by simp
  have m: "(0::real) < [0, 1, 1 / 5, - (1 / 20), 1, 0, 0, 0, - 1, - (302891 / 10000)] ! 4"
    by simp
  have u: "(1 / 2 :: real) = max 0 (min 1
      (([0, 1, 1 / 5, - (1 / 20), 1, 0, 0, 0, - 1, - (302891 / 10000)] ! 9
         + 1 * Isp moon * G0 moon
           / [0, 1, 1 / 5, - (1 / 20), 1, 0, 0, 0, - 1, - (302891 / 10000)] ! 4) / c moon))"
    by (simp add: moon_def)
  from quadratic_control_throttle [OF q l cz n p m u]
  have "pontryagin_minimum_principle moon numpy_float64
        [0, 1, 1 / 5, - (1 / 20), 1, 0, 0, 0, - 1, - (302891 / 10000)] = Inr [1 / 2, 0, 1]"
    by simp
  with q cz show ?thesis by simp
qed

text \<open>
  Claim C5. Under the objective \<^verbatim>\<open>"MOC"\<close>, for every augmented state with
  \<open>lv_norm > 0\<close> and \<open>m > 0\<close>, with the switching function
  \<open>S = 1 - \<lambda>m - (lv_norm / m) \<sqdot> Isp \<sqdot> g0\<close>, the control law returns the throttle \<open>0\<close>
  when \<open>S \<ge> 0\<close> and \<open>1\<close> when \<open>S < 0\<close>, so the throttle is \<open>0\<close> or \<open>1\<close>.
\<close>

theorem mass_optimal_throttle:
  assumes "objfun_type self = ''MOC''"
    and "length full_state = 10"
    and "lv_norm = sqrt ((full_state ! 7)\<^sup>2 + (full_state ! 8)\<^sup>2)"
    and "0 < lv_norm"
    and "0 < full_state ! 4"
    and "S = 1 - full_state ! 9 - (lv_norm / full_state ! 4) * Isp self * G0 self"
    and "u = (if S \<ge> 0 then 0 else 1)"
  shows "pontryagin_minimum_principle self kind full_state =
           Inr [u, - full_state ! 7 / lv_norm, - full_state ! 8 / lv_norm]
         \<and> u \<in> {0, 1} \<and> (u = 0 \<longleftrightarrow> S \<ge> 0) \<and> (u = 1 \<longleftrightarrow> S < 0)"
proof -
  have nz: "lv_norm \<noteq> 0" "full_state ! 4 \<noteq> 0"
    using \<open>0 < lv_norm\<close> \<open>0 < full_state ! 4\<close> by simp_all
  have "pontryagin_minimum_principle self kind full_state =
           Inr [u, - full_state ! 7 / lv_norm, - full_state ! 8 / lv_norm]"
    unfolding pontryagin_minimum_principle_def Let_def assms(3) [symmetric]
    using nz assms(1,2,6,7) by simp
  moreover have "u \<in> {0, 1}" and "u = 0 \<longleftrightarrow> S \<ge> 0" and "u = 1 \<longleftrightarrow> S < 0"
    using assms(7) by auto
  ultimately show ?thesis by simp
qed

theorem mass_optimal_throttle_witness:
  "objfun_type (moon\<lparr>objfun_type := ''MOC''\<rparr>) = ''MOC''
   \<and> (1::real) = sqrt ((0::real)\<^sup>2 + (- 1)\<^sup>2)
   \<and> (- (295091 / 10000) :: real) = 1 - 0 - (1 / 1) * (311 / 10) * (981 / 1000)
   \<and> pontryagin_minimum_principle (moon\<lparr>objfun_type := ''MOC''\<rparr>) numpy_float64
        [0, 1, 1 / 5, - (1 / 20), 1, 0, 0, 0, - 1, 0] = Inr [1, 0, 1]
   \<and> (704909 / 10000 :: real) = 1 - (- 100) - (1 / 1) * (311 / 10) * (981 / 1000)
   \<and> pontryagin_minimum_principle (moon\<lparr>objfun_type := ''MOC''\<rparr>) numpy_float64
        [0, 1, 1 / 5, - (1 / 20), 1, 0, 0, 0, - 1, - 100] = Inr [0, 0, 1]"
proof -
  have q: "objfun_type (moon\<lparr>objfun_type := ''MOC''\<rparr>) = ''MOC''" by simp
  have p: "(0::real) < 1" by simp
  have l1: "length [0, 1, 1 / 5, - (1 / 20), 1, 0, 0, 0, - 1, 0 :: real] = 10" by simp
  have n1: "(1::real) = sqrt (([0, 1, 1 / 5, - (1 / 20), 1, 0, 0, 0, - 1, 0] ! 7)\<^sup>2
          + ([0, 1, 1 / 5, - (1 / 20), 1, 0, 0, 0, - 1, 0] ! 8)\<^sup>2)" by simp
  have m1: "(0::real) < [0, 1, 1 / 5, - (1 / 20), 1, 0, 0, 0, - 1, 0] ! 4" by simp
  have s1: "(- (295091 / 10000) :: real) = 1 - [0, 1, 1 / 5, - (1 / 20), 1, 0, 0, 0, - 1, 0] ! 9
      - (1 / [0, 1, 1 / 5, - (1 / 20), 1, 0, 0, 0, - 1, 0] ! 4)
        * Isp (moon\<lparr>objfun_type := ''MOC''\<rparr>) * G0 (moon\<lparr>objfun_type := ''MOC''\<rparr>)"
    by (simp add: moon_def)
  have u1: "(1::real) = (if (- (295091 / 10000) :: real) \<ge> 0 then 0 else 1)" by simp
  have l2: "length [0, 1, 1 / 5, - (1 / 20), 1, 0, 0, 0, - 1, - 100 :: real] = 10" by simp
  have n2: "(1::real) = sqrt (([0, 1, 1 / 5, - (1 / 20), 1, 0, 0, 0, - 1, - 100] ! 7)\<^sup>2
          + ([0, 1, 1 / 5, - (1 / 20), 1, 0, 0, 0, - 1, - 100] ! 8)\<^sup>2)" by simp
  have m2: "(0::real) < [0, 1, 1 / 5, - (1 / 20), 1, 0, 0, 0, - 1, - 100] ! 4" by simp
  have s2: "(704909 / 10000 :: real) = 1 - [0, 1, 1 / 5, - (1 / 20), 1, 0, 0, 0, - 1, - 100] ! 9
      - (1 / [0, 1, 1 / 5, - (1 / 20), 1, 0, 0, 0, - 1, - 100] ! 4)
        * Isp (moon\<lparr>objfun_type := ''MOC''\<rparr>) * G0 (moon\<lparr>objfun_type := ''MOC''\<rparr>)"
    by (simp add: moon_def)
  have u2: "(0::real) = (if (704909 / 10000 :: real) \<ge> 0 then 0 else 1)" by simp
  from mass_optimal_throttle [OF q l1 n1 p m1 s1 u1]
  have r1: "pontryagin_minimum_principle (moon\<lparr>objfun_type := ''MOC''\<rparr>) numpy_float64
        [0, 1, 1 / 5, - (1 / 20), 1, 0, 0, 0, - 1, 0] = Inr [1, 0, 1]"
    by simp
  from mass_optimal_throttle [OF q l2 n2 p m2 s2 u2]
  have r2: "pontryagin_minimum_principle (moon\<lparr>objfun_type := ''MOC''\<rparr>) numpy_float64
        [0, 1, 1 / 5, - (1 / 20), 1, 0, 0, 0, - 1, - 100] = Inr [0, 0, 1]"
    by simp
  from r1 r2 show ?thesis by simp
qed

text \<open>
  Claim C6 says that a state with \<open>lv_norm = 0\<close> is met by a dedicated
  SingularControlLaw error, that no division by zero takes place and that no nan
  reaches the control triple. The source has no such error and no test of
  \<open>lv_norm\<close>: the quotient \<^verbatim>\<open>- lvx / lv_norm\<close> is formed with the zero divisor.
  On a row of \<^verbatim>\<open>numpy.float64\<close> entries, as every call within the source passes,
  the two quotients are nan and the triple comes back with them: here the throttle
  \<open>1 / 2\<close> with a direction that is nan twice.
\<close>

theorem singular_control_counterexample:
  "sqrt (([0, 1, 1 / 5, - (1 / 20), 1, 0, 0, 0, 0, 11 / 50] ! 7)\<^sup>2
       + ([0, 1, 1 / 5, - (1 / 20), 1, 0, 0, 0, 0, 11 / 50] ! 8)\<^sup>2) = (0::real)
   \<and> pontryagin_minimum_principle moon numpy_float64
        [0, 1, 1 / 5, - (1 / 20), 1, 0, 0, 0, 0, 11 / 50]
       = Inl (NanReturned [Some (1 / 2), None, None])"
  by (simp add: pontryagin_minimum_principle_def Let_def moon_def)

text \<open>
  Claim C6 as amended. For every augmented state with \<open>lv_norm = 0\<close> the control law
  divides by \<open>lv_norm\<close> unguarded, and no SingularControlLaw error exists. What follows
  is what the arithmetic of the entries does with the zero divisor. On
  \<^verbatim>\<open>numpy.float64\<close> entries, with \<open>m \<noteq> 0\<close>, the two direction entries are nan and the
  triple \<open>[u, nan, nan]\<close> is returned, with the throttle of the objective:
  \<open>u = clamp(\<lambda>m / c, 0, 1)\<close> under \<^verbatim>\<open>"QC"\<close> (for \<open>c \<noteq> 0\<close>), and \<open>u = 0\<close> if
  \<open>1 - \<lambda>m \<ge> 0\<close>, else \<open>u = 1\<close>, under \<^verbatim>\<open>"MOC"\<close>. On built-in floats the division
  raises \<^verbatim>\<open>ZeroDivisionError\<close> and nothing is returned.
\<close>

theorem singular_control_law:
  assumes "length full_state = 10"
    and "sqrt ((full_state ! 7)\<^sup>2 + (full_state ! 8)\<^sup>2) = 0"
  shows "(objfun_type self = ''QC'' \<and> c self \<noteq> 0 \<and> full_state ! 4 \<noteq> 0 \<longrightarrow>
            pontryagin_minimum_principle self numpy_float64 full_state =
              Inl (NanReturned [Some (max 0 (min 1 (full_state ! 9 / c self))), None, None]))
       \<and> (objfun_type self = ''MOC'' \<and> full_state ! 4 \<noteq> 0 \<longrightarrow>
            pontryagin_minimum_principle self numpy_float64 full_state =
              Inl (NanReturned [Some (if 1 - full_state ! 9 \<ge> 0 then 0 else 1), None, None]))
       \<and> pontryagin_minimum_principle self python_float full_state = Inl ZeroDivisionError"
proof -
  from assms(2) have z: "full_state ! 7 = 0" "full_state ! 8 = 0"
    by simp_all
  show ?thesis
    using assms(1) by (simp add: pontryagin_minimum_principle_def Let_def z max.commute min.commute)
qed

theorem singular_control_law_witness:
  "length [3, 2, 0, 0, 9 / 10, 1, 1, 0, 0, - 4 :: real] = 10
   \<and> sqrt (([3, 2, 0, 0, 9 / 10, 1, 1, 0, 0, - 4] ! 7)\<^sup>2
          + ([3, 2, 0, 0, 9 / 10, 1, 1, 0, 0, - 4] ! 8)\<^sup>2) = (0::real)
   \<and> objfun_type moon = ''QC'' \<and> c moon \<noteq> 0
   \<and> [3, 2, 0, 0, 9 / 10, 1, 1, 0, 0, - 4 :: real] ! 4 \<noteq> 0
   \<and> pontryagin_minimum_principle moon numpy_float64
        [3, 2, 0, 0, 9 / 10, 1, 1, 0, 0, - 4] = Inl (NanReturned [Some 0, None, None])
   \<and> objfun_type (moon\<lparr>objfun_type := ''MOC''\<rparr>) = ''MOC''
   \<and> pontryagin_minimum_principle (moon\<lparr>objfun_type := ''MOC''\<rparr>) numpy_float64
        [3, 2, 0, 0, 9 / 10, 1, 1, 0, 0, - 4] = Inl (NanReturned [Some 0, None, None])
   \<and> pontryagin_minimum_principle moon python_float
        [3, 2, 0, 0, 9 / 10, 1, 1, 0, 0, - 4] = Inl ZeroDivisionError"
proof -
  let ?s = "[3, 2, 0, 0, 9 / 10, 1, 1, 0, 0, - 4 :: real]"
  have l: "length ?s = 10" by simp
  have z: "sqrt ((?s ! 7)\<^sup>2 + (?s ! 8)\<^sup>2) = 0" by simp
  have q: "objfun_type moon = ''QC''" and cz: "c moon \<noteq> 0" by (simp_all add: moon_def)
  have o: "objfun_type (moon\<lparr>objfun_type := ''MOC''\<rparr>) = ''MOC''" by simp
  have m: "?s ! 4 \<noteq> 0" by simp
  note t1 = singular_control_law [OF l z, of moon]
  note t2 = singular_control_law [OF l z, of "moon\<lparr>objfun_type := ''MOC''\<rparr>"]
  from t1 q cz m have a: "pontryagin_minimum_principle moon numpy_float64 ?s
      = Inl (NanReturned [Some 0, None, None])"
    by (simp add: moon_def)
  from t2 o m have b: "pontryagin_minimum_principle (moon\<lparr>objfun_type := ''MOC''\<rparr>)
      numpy_float64 ?s = Inl (NanReturned [Some 0, None, None])"
    by simp
  from t1 have d: "pontryagin_minimum_principle moon python_float ?s = Inl ZeroDivisionError"
    by blast
  from l z q cz m a o b d show ?thesis by blast
qed

subsection \<open>The costate equations\<close>

lemma eom_costate_value:
  assumes "length full_state = 10" and "length controls = 3" and "full_state ! 4 \<noteq> 0"
  shows "eom_costate self full_state controls =
     Inr [0, 0, - full_state ! 5, - full_state ! 6,
          c self * controls ! 0 * (full_state ! 7 * controls ! 1 + full_state ! 8 * controls ! 2)
            / (full_state ! 4)\<^sup>2]"
  using assms by (simp add: eom_costate_def Let_def)

text \<open>Entries 5 and 6 of the right-hand side are the derivatives of \<open>\<lambda>x\<close> and \<open>\<lambda>y\<close>.\<close>

lemma eom_position_costates:
  assumes "eom self kind full_state t = Inr d"
  shows "d ! 5 = 0 \<and> d ! 6 = 0"
proof -
  from assms obtain controls dstate dcostate where
    1: "eom_state self (take 5 full_state) controls = Inr dstate" and
    2: "eom_costate self full_state controls = Inr dcostate" and
    3: "d = dstate @ dcostate"
    by (auto simp: eom_def Let_def and_then_def split: sum.splits)
  from 1 have "length dstate = 5"
    by (auto simp: eom_state_def Let_def split: if_splits)
  moreover from 2 have "dcostate ! 0 = 0 \<and> dcostate ! 1 = 0"
    by (auto simp: eom_costate_def Let_def split: if_splits)
  ultimately show ?thesis using 3 by (simp add: nth_append)
qed

lemma constant_on_interval:
  fixes f :: "real \<Rightarrow> real"
  assumes d: "\<And>s. s \<in> {0..tf} \<Longrightarrow> (f has_real_derivative 0) (at s within {0..tf})"
    and t: "t \<in> {0..tf}"
  shows "f t = f 0"
proof (cases "t = 0")
  case True
  then show ?thesis by simp
next
  case False
  with t have pos: "0 < tf" by simp
  have cont: "continuous_on {0..tf} f"
    by (rule DERIV_continuous_on) (rule d)
  have inner: "DERIV f x :> 0" if "0 < x" and "x < tf" for x
  proof -
    from that have "x \<in> {0..tf}" by simp
    from d [OF this] that show ?thesis by (simp add: at_within_Icc_at)
  qed
  from t have "0 \<le> t" and "t \<le> tf" by simp_all
  from DERIV_isconst2 [OF pos cont inner this] show ?thesis by simp
qed

lemma constant_along_solution:
  fixes X :: "real \<Rightarrow> real list"
  assumes sol: "\<forall>t\<in>{0..tf}. \<exists>d. eom self kind (X t) t = Inr d
            \<and> ((\<lambda>s. X s ! 5) has_real_derivative d ! 5) (at t within {0..tf})
            \<and> ((\<lambda>s. X s ! 6) has_real_derivative d ! 6) (at t within {0..tf})"
    and t: "t \<in> {0..tf}"
  shows "X t ! 5 = X 0 ! 5 \<and> X t ! 6 = X 0 ! 6"
proof -
  have 5: "((\<lambda>s. X s ! 5) has_real_derivative 0) (at s within {0..tf})"
    if "s \<in> {0..tf}" for s
    using sol that eom_position_costates by metis
  have 6: "((\<lambda>s. X s ! 6) has_real_derivative 0) (at s within {0..tf})"
    if "s \<in> {0..tf}" for s
    using sol that eom_position_costates by metis
  from constant_on_interval [of tf "\<lambda>s. X s ! 5", OF 5 t]
    constant_on_interval [of tf "\<lambda>s. X s ! 6", OF 6 t]
  show ?thesis by simp
qed

lemma eom_ballistic:
  "eom moon numpy_float64 (ballistic t) t =
     Inr [1 / 5, - (1 / 20) - 16229 / 100000 * t, 0, - (16229 / 100000), 0, 0, 0, 0, 0, 0]"
proof -
  have p: "pontryagin_minimum_principle moon numpy_float64 (ballistic t) = Inr [0, 0, 1]"
    by (simp add: pontryagin_minimum_principle_def Let_def moon_def ballistic_def)
  show ?thesis
    by (simp add: eom_def p)
      (simp add: eom_state_def eom_costate_def moon_def ballistic_def Let_def)
qed

text \<open>
  Claim C7. For every augmented state and control triple with \<open>m \<noteq> 0\<close> the costate
  model returns \<open>d\<lambda>x = 0\<close>, \<open>d\<lambda>y = 0\<close>, \<open>d\<lambda>vx = - \<lambda>x\<close>, \<open>d\<lambda>vy = - \<lambda>y\<close> and
  \<open>d\<lambda>m = c \<sqdot> u \<sqdot> (\<lambda>vx \<sqdot> sin\<theta> + \<lambda>vy \<sqdot> cos\<theta>) / m\<^sup>2\<close>. In particular \<open>\<lambda>x\<close> and \<open>\<lambda>y\<close>
  are constants of motion: along every trajectory \<open>X\<close> on \<open>[0, tf]\<close> whose entries 5
  and 6 have, at each time, the derivative that the right-hand side \<^verbatim>\<open>_eom\<close> gives
  there, these two entries keep the value they have at time \<open>0\<close>.
\<close>

theorem costate_derivatives:
  fixes X :: "real \<Rightarrow> real list"
  shows
  "(length full_state = 10 \<and> length controls = 3 \<and> full_state ! 4 \<noteq> 0 \<longrightarrow>
      eom_costate self full_state controls =
        Inr [0, 0, - full_state ! 5, - full_state ! 6,
             c self * controls ! 0
               * (full_state ! 7 * controls ! 1 + full_state ! 8 * controls ! 2)
               / (full_state ! 4)\<^sup>2])
   \<and> ((\<forall>t\<in>{0..tf}. \<exists>d. eom self kind (X t) t = Inr d
            \<and> ((\<lambda>s. X s ! 5) has_real_derivative d ! 5) (at t within {0..tf})
            \<and> ((\<lambda>s. X s ! 6) has_real_derivative d ! 6) (at t within {0..tf})) \<longrightarrow>
       (\<forall>t\<in>{0..tf}. X t ! 5 = X 0 ! 5 \<and> X t ! 6 = X 0 ! 6))"
  using eom_costate_value [of full_state controls self]
    constant_along_solution [where tf = tf and self = self and X = X and kind = kind]
  by blast

theorem costate_derivatives_witness:
  "length [0, 1, 1 / 5, - (1 / 20), 1, 1 / 2, - 3, 0, - 1, 0 :: real] = 10
   \<and> length [1, 0, 1 :: real] = 3
   \<and> [0, 1, 1 / 5, - (1 / 20), 1, 1 / 2, - 3, 0, - 1, 0 :: real] ! 4 \<noteq> 0
   \<and> eom_costate moon [0, 1, 1 / 5, - (1 / 20), 1, 1 / 2, - 3, 0, - 1, 0] [1, 0, 1]
        = Inr [0, 0, - (1 / 2), 3, - (11 / 25)]
   \<and> (\<forall>t. \<exists>d. eom moon numpy_float64 (ballistic t) t = Inr d
            \<and> ((\<lambda>s. ballistic s ! 5) has_real_derivative d ! 5) (at t within {0..4})
            \<and> ((\<lambda>s. ballistic s ! 6) has_real_derivative d ! 6) (at t within {0..4}))
   \<and> (3::real) \<in> {0..4}
   \<and> ballistic 3 ! 5 = ballistic 0 ! 5 \<and> ballistic 3 ! 6 = ballistic 0 ! 6"
proof -
  note t = costate_derivatives
    [where full_state = "[0, 1, 1 / 5, - (1 / 20), 1, 1 / 2, - 3, 0, - 1, 0]"
       and controls = "[1, 0, 1]" and self = moon and tf = 4 and X = ballistic
       and kind = numpy_float64]
  have h: "\<forall>t. \<exists>d. eom moon numpy_float64 (ballistic t) t = Inr d
            \<and> ((\<lambda>s. ballistic s ! 5) has_real_derivative d ! 5) (at t within {0..4})
            \<and> ((\<lambda>s. ballistic s ! 6) has_real_derivative d ! 6) (at t within {0..4})"
    by (simp add: eom_ballistic) (simp add: ballistic_def)
  have i: "(3::real) \<in> {0..4}" by simp
  from h have "\<forall>t\<in>{0..4}. \<exists>d. eom moon numpy_float64 (ballistic t) t = Inr d
            \<and> ((\<lambda>s. ballistic s ! 5) has_real_derivative d ! 5) (at t within {0..4})
            \<and> ((\<lambda>s. ballistic s ! 6) has_real_derivative d ! 6) (at t within {0..4})"
    by blast
  with t have "\<forall>t\<in>{0..4}. ballistic t ! 5 = ballistic 0 ! 5 \<and> ballistic t ! 6 = ballistic 0 ! 6"
    by (rule conjunct2 [THEN mp])
  from bspec [OF this i]
  have k: "ballistic 3 ! 5 = ballistic 0 ! 5 \<and> ballistic 3 ! 6 = ballistic 0 ! 6" .
  from t have e: "eom_costate moon [0, 1, 1 / 5, - (1 / 20), 1, 1 / 2, - 3, 0, - 1, 0] [1, 0, 1]
        = Inr [0, 0, - (1 / 2), 3, - (11 / 25)]"
    by (simp add: moon_def)
  from h i k e show ?thesis by simp
qed

subsection \<open>An objective type that is neither \<^verbatim>\<open>"QC"\<close> nor \<^verbatim>\<open>"MOC"\<close>\<close>

lemma unknown_objective_cost:
  assumes "objfun_type self \<noteq> ''QC''" and "objfun_type self \<noteq> ''MOC''"
    and "length controls = 3"
  shows "cost self state controls = Inl UnboundLocalError"
  using assms by (simp add: cost_def Let_def)

lemma unknown_objective_control:
  assumes "objfun_type self \<noteq> ''QC''" and "objfun_type self \<noteq> ''MOC''"
    and "length full_state = 10"
  shows "pontryagin_minimum_principle self kind full_state =
     Inl (if kind = python_float \<and> sqrt ((full_state ! 7)\<^sup>2 + (full_state ! 8)\<^sup>2) = 0
          then ZeroDivisionError else UnboundLocalError)"
  using assms
  by (cases kind) (simp_all add: pontryagin_minimum_principle_def Let_def)

text \<open>
  Claim C10. For every objective string other than \<^verbatim>\<open>"QC"\<close> and \<^verbatim>\<open>"MOC"\<close>,
  construction succeeds (on states of at least five entries) and stores the string as
  it is. On the object built, every evaluation of the running cost on a control triple
  falls through the \<^verbatim>\<open>if\<close>/\<^verbatim>\<open>elif\<close> chain and ends in the unbound-variable error, and
  so does every evaluation of the control law on an augmented state of
  \<^verbatim>\<open>numpy.float64\<close> entries, which is what every call within the source passes,
  \<open>lv_norm = 0\<close> included: the nan quotients are formed and the chain is reached. On
  built-in floats the same holds wherever \<open>lv_norm \<noteq> 0\<close>. (The one evaluation left
  out, a list of built-in floats with \<open>lv_norm = 0\<close>, is settled by
  \<open>unknown_objective_control\<close>: the division raises before the chain.)
\<close>

theorem unknown_objective:
  assumes "ot \<noteq> ''QC''" and "ot \<noteq> ''MOC''"
    and "5 \<le> length s0" and "5 \<le> length st"
    and "length controls = 3" and "length full_state = 10"
    and "kind = numpy_float64 \<or> sqrt ((full_state ! 7)\<^sup>2 + (full_state ! 8)\<^sup>2) \<noteq> 0"
  shows "\<exists>self. init s0 st isp thrust grav ot pp = Inr self
       \<and> objfun_type self = ot
       \<and> cost self state controls = Inl UnboundLocalError
       \<and> pontryagin_minimum_principle self kind full_state = Inl UnboundLocalError"
proof -
  from init_value [OF assms(3,4), of isp thrust grav ot pp]
  obtain self where i: "init s0 st isp thrust grav ot pp = Inr self"
    and o: "objfun_type self = ot"
    by simp
  from o assms(1,2) have n: "objfun_type self \<noteq> ''QC''" "objfun_type self \<noteq> ''MOC''"
    by simp_all
  from assms(7) have k: "\<not> (kind = python_float
      \<and> sqrt ((full_state ! 7)\<^sup>2 + (full_state ! 8)\<^sup>2) = 0)"
    by auto
  from unknown_objective_control [OF n assms(6), of kind] k
  have "pontryagin_minimum_principle self kind full_state = Inl UnboundLocalError"
    by simp
  with i o unknown_objective_cost [OF n assms(5)] show ?thesis by blast
qed

theorem unknown_objective_witness:
  "''quadratic'' \<noteq> ''QC'' \<and> ''quadratic'' \<noteq> ''MOC''
   \<and> 5 \<le> length [0, 1000, 20, - 5, 10000 :: real]
   \<and> 5 \<le> length [0, 0, 0, 0, 9000 :: real]
   \<and> length [1, 0, 1 :: real] = 3
   \<and> length [0, 1, 1 / 5, - (1 / 20), 1, 0, 0, 0, 0, 0 :: real] = 10
   \<and> (\<exists>self. init [0, 1000, 20, - 5, 10000] [0, 0, 0, 0, 9000] 311 44000 (16229 / 10000)
               ''quadratic'' True = Inr self
        \<and> objfun_type self = ''quadratic''
        \<and> cost self [0, 1, 1 / 5, - (1 / 20), 1] [1, 0, 1] = Inl UnboundLocalError
        \<and> pontryagin_minimum_principle self numpy_float64
            [0, 1, 1 / 5, - (1 / 20), 1, 0, 0, 0, 0, 0] = Inl UnboundLocalError)
   \<and> length [0, 1, 1 / 5, - (1 / 20), 1, 0, 0, 0, - 1, 0 :: real] = 10
   \<and> sqrt (([0, 1, 1 / 5, - (1 / 20), 1, 0, 0, 0, - 1, 0] ! 7)\<^sup>2
          + ([0, 1, 1 / 5, - (1 / 20), 1, 0, 0, 0, - 1, 0] ! 8)\<^sup>2) \<noteq> (0::real)
   \<and> (\<exists>self. init [0, 1000, 20, - 5, 10000] [0, 0, 0, 0, 9000] 311 44000 (16229 / 10000)
               ''quadratic'' True = Inr self
        \<and> objfun_type self = ''quadratic''
        \<and> cost self [0, 1, 1 / 5, - (1 / 20), 1] [1, 0, 1] = Inl UnboundLocalError
        \<and> pontryagin_minimum_principle self python_float
            [0, 1, 1 / 5, - (1 / 20), 1, 0, 0, 0, - 1, 0] = Inl UnboundLocalError)"
proof -
  let ?z = "[0, 1, 1 / 5, - (1 / 20), 1, 0, 0, 0, 0, 0 :: real]"
  let ?r = "[0, 1, 1 / 5, - (1 / 20), 1, 0, 0, 0, - 1, 0 :: real]"
  have a: "''quadratic'' \<noteq> ''QC''" and b: "''quadratic'' \<noteq> ''MOC''" by simp_all
  have c0: "5 \<le> length [0, 1000, 20, - 5, 10000 :: real]"
    and c1: "5 \<le> length [0, 0, 0, 0, 9000 :: real]" by simp_all
  have d: "length [1, 0, 1 :: real] = 3" by simp
  have e: "length ?z = 10" and f: "length ?r = 10" by simp_all
  have k: "numpy_float64 = numpy_float64 \<or> sqrt ((?z ! 7)\<^sup>2 + (?z ! 8)\<^sup>2) \<noteq> 0" by simp
  have n: "sqrt ((?r ! 7)\<^sup>2 + (?r ! 8)\<^sup>2) \<noteq> 0" by simp
  then have j: "python_float = numpy_float64 \<or> sqrt ((?r ! 7)\<^sup>2 + (?r ! 8)\<^sup>2) \<noteq> 0" ..
  note t1 = unknown_objective [OF a b c0 c1 d e k, of 311 44000 "16229 / 10000" True
      "[0, 1, 1 / 5, - (1 / 20), 1]"]
  note t2 = unknown_objective [OF a b c0 c1 d f j, of 311 44000 "16229 / 10000" True
      "[0, 1, 1 / 5, - (1 / 20), 1]"]
  from a b c0 c1 d e t1 f n t2 show ?thesis by blast
qed

subsection \<open>The constraint vector\<close>

lemma compute_constraints_value:
  assumes "shoot odeint self x = Inr (xf, info)"
    and "xf \<noteq> []" and "length (last xf) = 10" and "4 \<le> length (statet self)"
    and "hamiltonian self numpy_float64 (last xf) = Inr H"
  shows "compute_constraints_impl odeint self x =
     Inr [if pinpoint self then (last xf ! 0 - statet self ! 0) * 100 else last xf ! 5 * 100,
          (last xf ! 1 - statet self ! 1) * 100,
          (last xf ! 2 - statet self ! 2) * 100,
          (last xf ! 3 - statet self ! 3) * 100,
          last xf ! 9 * 100,
          H * 100]"
  using assms by (simp add: compute_constraints_impl_def Let_def eval_nat_numeral)


lemma sqrt_25_16: "sqrt ((3 / 4)\<^sup>2 + 1) = (5 / 4 :: real)"
  by (rule real_sqrt_unique) (simp_all add: power2_eq_square)

text \<open>A thrusting arc of \<open>moon\<close>: one Euler step with full throttle.\<close>

lemma eom_thrust:
  "eom moon numpy_float64 [0, 1, 1 / 5, - (1 / 20), 1, 0, 0, 0, - 1, 0] 0 =
     Inr [1 / 5, - (1 / 20), 0, 27771 / 100000, - (4400 / 305091), 0, 0, 0, 0, - (11 / 25)]"
proof -
  have p: "pontryagin_minimum_principle moon numpy_float64 [0, 1, 1 / 5, - (1 / 20), 1, 0, 0, 0, - 1, 0]
      = Inr [1, 0, 1]"
    by (simp add: pontryagin_minimum_principle_def Let_def moon_def)
  show ?thesis
    by (simp add: eom_def p)
      (simp add: eom_state_def eom_costate_def moon_def Let_def power2_eq_square)
qed

lemma shoot_thrust:
  "shoot euler_step moon [0, 0, 0, - 1, 0, 1] =
     Inr ([[0, 1, 1 / 5, - (1 / 20), 1, 0, 0, 0, - 1, 0],
           [1 / 5, 19 / 20, 1 / 5, 22771 / 100000, 300691 / 305091, 0, 0, 0, - 1, - (11 / 25)]],
          \<lparr>message = ''Integration successful.''\<rparr>)"
proof -
  have "state0 moon = [0, 1, 1 / 5, - (1 / 20), 1]" by (simp add: moon_def)
  then show ?thesis by (simp add: shoot_def euler_step_def eom_thrust)
qed

lemma hamiltonian_thrust:
  "hamiltonian moon numpy_float64
     [1 / 5, 19 / 20, 1 / 5, 22771 / 100000, 300691 / 305091, 0, 0, 0, - 1, - (11 / 25)]
   = Inr (- (2490297334073251 / 9173811788100000))"
proof -
  have p: "pontryagin_minimum_principle moon numpy_float64
      [1 / 5, 19 / 20, 1 / 5, 22771 / 100000, 300691 / 305091, 0, 0, 0, - 1, - (11 / 25)]
      = Inr [1, 0, 1]"
    by (simp add: pontryagin_minimum_principle_def Let_def moon_def)
  show ?thesis
    by (simp add: hamiltonian_def p)
      (simp add: eom_state_def cost_def moon_def Let_def power2_eq_square)
qed

text \<open>A coasting arc with a nonzero position costate, for either value of the flag.\<close>

lemma eom_coast:
  "eom (moon\<lparr>pinpoint := pp\<rparr>) numpy_float64 [0, 1, 1 / 5, - (1 / 20), 1, - (3 / 4), 0, 0, - 1, - 100] 0 =
     Inr [1 / 5, - (1 / 20), 0, - (16229 / 100000), 0, 0, 0, 3 / 4, 0, 0]"
proof -
  have p: "pontryagin_minimum_principle (moon\<lparr>pinpoint := pp\<rparr>) numpy_float64
      [0, 1, 1 / 5, - (1 / 20), 1, - (3 / 4), 0, 0, - 1, - 100] = Inr [0, 0, 1]"
    by (simp add: pontryagin_minimum_principle_def Let_def moon_def)
  show ?thesis
    by (simp add: eom_def p)
      (simp add: eom_state_def eom_costate_def moon_def Let_def)
qed

lemma shoot_coast:
  "shoot euler_step (moon\<lparr>pinpoint := pp\<rparr>) [- (3 / 4), 0, 0, - 1, - 100, 1] =
     Inr ([[0, 1, 1 / 5, - (1 / 20), 1, - (3 / 4), 0, 0, - 1, - 100],
           [1 / 5, 19 / 20, 1 / 5, - (21229 / 100000), 1, - (3 / 4), 0, 3 / 4, - 1, - 100]],
          \<lparr>message = ''Integration successful.''\<rparr>)"
proof -
  have "state0 (moon\<lparr>pinpoint := pp\<rparr>) = [0, 1, 1 / 5, - (1 / 20), 1]" by (simp add: moon_def)
  then show ?thesis by (simp add: shoot_def euler_step_def eom_coast)
qed

lemma hamiltonian_coast:
  "hamiltonian (moon\<lparr>pinpoint := pp\<rparr>) numpy_float64
     [1 / 5, 19 / 20, 1 / 5, - (21229 / 100000), 1, - (3 / 4), 0, 3 / 4, - 1, - 100]
   = Inr (1229 / 100000)"
proof -
  have p: "pontryagin_minimum_principle (moon\<lparr>pinpoint := pp\<rparr>) numpy_float64
      [1 / 5, 19 / 20, 1 / 5, - (21229 / 100000), 1, - (3 / 4), 0, 3 / 4, - 1, - 100]
      = Inr [0, - (3 / 5), 4 / 5]"
    by (simp add: pontryagin_minimum_principle_def Let_def moon_def sqrt_25_16)
  show ?thesis
    by (simp add: hamiltonian_def p)
      (simp add: eom_state_def cost_def moon_def Let_def)
qed




text \<open>
  Claim C1 puts the final velocities and the final mass into \<open>c[1]\<close>, \<open>c[2]\<close> and
  \<open>c[3]\<close>. The state is \<open>[x, y, vx, vy, m]\<close> and the source reads its entries 1, 2
  and 3, so the three residuals are those of the altitude and of the two velocities;
  the mass is a free final state (its costate is what \<open>c[4]\<close> holds) and is none
  of the three. On the thrusting arc of \<open>moon\<close>, integrated with success, \<open>c[1] = 95\<close> is
  the altitude residual and not the \<open>20\<close> of the horizontal velocity, and so on.
\<close>

theorem final_conditions_counterexample:
  "shoot euler_step moon [0, 0, 0, - 1, 0, 1] =
     Inr ([[0, 1, 1 / 5, - (1 / 20), 1, 0, 0, 0, - 1, 0],
           [1 / 5, 19 / 20, 1 / 5, 22771 / 100000, 300691 / 305091, 0, 0, 0, - 1, - (11 / 25)]],
          \<lparr>message = ''Integration successful.''\<rparr>)
   \<and> compute_constraints_impl euler_step moon [0, 0, 0, - 1, 0, 1] =
       Inr [0, 95, 20, 22771 / 1000, - 44, - (2490297334073251 / 91738117881000)]
   \<and> (95 :: real) \<noteq> 100 *
        ([1 / 5, 19 / 20, 1 / 5, 22771 / 100000, 300691 / 305091, 0, 0, 0, - 1, - (11 / 25)] ! 2
          - statet moon ! 2)
   \<and> (20 :: real) \<noteq> 100 *
        ([1 / 5, 19 / 20, 1 / 5, 22771 / 100000, 300691 / 305091, 0, 0, 0, - 1, - (11 / 25)] ! 3
          - statet moon ! 3)
   \<and> (22771 / 1000 :: real) \<noteq> 100 *
        ([1 / 5, 19 / 20, 1 / 5, 22771 / 100000, 300691 / 305091, 0, 0, 0, - 1, - (11 / 25)] ! 4
          - statet moon ! 4)"
proof -
  have s: "4 \<le> length (statet moon)" "\<not> pinpoint moon"
    "statet moon = [0, 0, 0, 0, 1951739161 / 2000000000]"
    by (simp_all add: moon_def)
  let ?r0 = "[0, 1, 1 / 5, - (1 / 20), 1, 0, 0, 0, - 1, 0 :: real]"
  let ?r1 = "[1 / 5, 19 / 20, 1 / 5, 22771 / 100000, 300691 / 305091, 0, 0, 0, - 1, - (11 / 25) :: real]"
  have n: "[?r0, ?r1] \<noteq> []" and l: "length (last [?r0, ?r1]) = 10" by simp_all
  have h: "hamiltonian moon numpy_float64 (last [?r0, ?r1]) = Inr (- (2490297334073251 / 9173811788100000))"
    using hamiltonian_thrust by simp
  have "compute_constraints_impl euler_step moon [0, 0, 0, - 1, 0, 1] =
       Inr [0, 95, 20, 22771 / 1000, - 44, - (2490297334073251 / 91738117881000)]"
    using compute_constraints_value [OF shoot_thrust n l s(1) h] s(2,3)
    by simp
  then show ?thesis using shoot_thrust s(3) by simp
qed

text \<open>
  Claim C1 as amended. For every decision vector whose propagation returns a table with
  a last row of ten entries at which the Hamiltonian can be evaluated, the constraint
  vector is returned with \<open>c[1] = 100 \<sqdot> (final y - target y)\<close>,
  \<open>c[2] = 100 \<sqdot> (final vx - target vx)\<close> and \<open>c[3] = 100 \<sqdot> (final vy - target vy)\<close>,
  the final values read from the last row and the targets from the scaled target state.
\<close>

theorem final_condition_residuals:
  assumes "shoot odeint self x = Inr (xf, info)"
    and "xf \<noteq> []" and "length (last xf) = 10" and "4 \<le> length (statet self)"
    and "hamiltonian self numpy_float64 (last xf) = Inr H"
  shows "\<exists>ceq. compute_constraints_impl odeint self x = Inr ceq
       \<and> ceq ! 1 = 100 * (last xf ! 1 - statet self ! 1)
       \<and> ceq ! 2 = 100 * (last xf ! 2 - statet self ! 2)
       \<and> ceq ! 3 = 100 * (last xf ! 3 - statet self ! 3)"
  using compute_constraints_value [OF assms] by simp

theorem final_condition_residuals_witness:
  "shoot euler_step moon [0, 0, 0, - 1, 0, 1] =
     Inr ([[0, 1, 1 / 5, - (1 / 20), 1, 0, 0, 0, - 1, 0],
           [1 / 5, 19 / 20, 1 / 5, 22771 / 100000, 300691 / 305091, 0, 0, 0, - 1, - (11 / 25)]],
          \<lparr>message = ''Integration successful.''\<rparr>)
   \<and> 4 \<le> length (statet moon)
   \<and> hamiltonian moon numpy_float64
        [1 / 5, 19 / 20, 1 / 5, 22771 / 100000, 300691 / 305091, 0, 0, 0, - 1, - (11 / 25)]
       = Inr (- (2490297334073251 / 9173811788100000))
   \<and> (\<exists>ceq. compute_constraints_impl euler_step moon [0, 0, 0, - 1, 0, 1] = Inr ceq
        \<and> ceq ! 1 = 95 \<and> ceq ! 2 = 20 \<and> ceq ! 3 = 22771 / 1000)"
proof -
  have s: "4 \<le> length (statet moon)" by (simp add: moon_def)
  have t: "statet moon = [0, 0, 0, 0, 1951739161 / 2000000000]" by (simp add: moon_def)
  let ?r0 = "[0, 1, 1 / 5, - (1 / 20), 1, 0, 0, 0, - 1, 0 :: real]"
  let ?r1 = "[1 / 5, 19 / 20, 1 / 5, 22771 / 100000, 300691 / 305091, 0, 0, 0, - 1, - (11 / 25) :: real]"
  have n: "[?r0, ?r1] \<noteq> []" and l: "length (last [?r0, ?r1]) = 10" by simp_all
  have h: "hamiltonian moon numpy_float64 (last [?r0, ?r1]) = Inr (- (2490297334073251 / 9173811788100000))"
    using hamiltonian_thrust by simp
  from final_condition_residuals [OF shoot_thrust n l s h]
  have "\<exists>ceq. compute_constraints_impl euler_step moon [0, 0, 0, - 1, 0, 1] = Inr ceq
        \<and> ceq ! 1 = 95 \<and> ceq ! 2 = 20 \<and> ceq ! 3 = 22771 / 1000"
    by (simp add: t)
  with shoot_thrust s hamiltonian_thrust show ?thesis by blast
qed

text \<open>
  Claim C2. For every decision vector whose propagation returns a table with a last row
  of ten entries at which the Hamiltonian can be evaluated, with value \<open>H\<close>, the
  constraint vector is returned with \<open>c[4] = 100 \<sqdot> \<lambda>m\<close>, with
  \<open>c[0] = 100 \<sqdot> (final x - target x)\<close> when the pinpoint flag is set and
  \<open>c[0] = 100 \<sqdot> \<lambda>x\<close> otherwise, and with \<open>c[5] = 100 \<sqdot> H\<close>.
\<close>

theorem transversality_residuals:
  assumes "shoot odeint self x = Inr (xf, info)"
    and "xf \<noteq> []" and "length (last xf) = 10" and "4 \<le> length (statet self)"
    and "hamiltonian self numpy_float64 (last xf) = Inr H"
  shows "\<exists>ceq. compute_constraints_impl odeint self x = Inr ceq
       \<and> ceq ! 4 = 100 * last xf ! 9
       \<and> ceq ! 0 = (if pinpoint self then 100 * (last xf ! 0 - statet self ! 0)
                    else 100 * last xf ! 5)
       \<and> ceq ! 5 = 100 * H"
  using compute_constraints_value [OF assms] by simp

theorem transversality_residuals_witness:
  "shoot euler_step moon [- (3 / 4), 0, 0, - 1, - 100, 1] =
     Inr ([[0, 1, 1 / 5, - (1 / 20), 1, - (3 / 4), 0, 0, - 1, - 100],
           [1 / 5, 19 / 20, 1 / 5, - (21229 / 100000), 1, - (3 / 4), 0, 3 / 4, - 1, - 100]],
          \<lparr>message = ''Integration successful.''\<rparr>)
   \<and> hamiltonian moon numpy_float64
        [1 / 5, 19 / 20, 1 / 5, - (21229 / 100000), 1, - (3 / 4), 0, 3 / 4, - 1, - 100]
       = Inr (1229 / 100000)
   \<and> (\<exists>ceq. compute_constraints_impl euler_step moon [- (3 / 4), 0, 0, - 1, - 100, 1] = Inr ceq
        \<and> ceq ! 4 = - 10000 \<and> ceq ! 0 = - 75 \<and> ceq ! 5 = 1229 / 1000)
   \<and> (\<exists>ceq. compute_constraints_impl euler_step (moon\<lparr>pinpoint := True\<rparr>)
               [- (3 / 4), 0, 0, - 1, - 100, 1] = Inr ceq
        \<and> ceq ! 4 = - 10000 \<and> ceq ! 0 = 20 \<and> ceq ! 5 = 1229 / 1000)"
proof -
  let ?r0 = "[0, 1, 1 / 5, - (1 / 20), 1, - (3 / 4), 0, 0, - 1, - 100 :: real]"
  let ?r1 = "[1 / 5, 19 / 20, 1 / 5, - (21229 / 100000), 1, - (3 / 4), 0, 3 / 4, - 1, - 100 :: real]"
  have m: "moon\<lparr>pinpoint := False\<rparr> = moon" by (simp add: moon_def)
  have n: "[?r0, ?r1] \<noteq> []" and l: "length (last [?r0, ?r1]) = 10" by simp_all
  have s: "4 \<le> length (statet (moon\<lparr>pinpoint := pp\<rparr>))" for pp by (simp add: moon_def)
  have t: "statet (moon\<lparr>pinpoint := pp\<rparr>) = [0, 0, 0, 0, 1951739161 / 2000000000]" for pp
    by (simp add: moon_def)
  have h: "hamiltonian (moon\<lparr>pinpoint := pp\<rparr>) numpy_float64 (last [?r0, ?r1]) = Inr (1229 / 100000)" for pp
    using hamiltonian_coast [of pp] by simp
  from transversality_residuals [OF shoot_coast [of False] n l s [of False] h [of False]]
  have f: "\<exists>ceq. compute_constraints_impl euler_step moon [- (3 / 4), 0, 0, - 1, - 100, 1] = Inr ceq
        \<and> ceq ! 4 = - 10000 \<and> ceq ! 0 = - 75 \<and> ceq ! 5 = 1229 / 1000"
    by (simp add: m moon_def)
  from transversality_residuals [OF shoot_coast [of True] n l s [of True] h [of True]]
  have p: "\<exists>ceq. compute_constraints_impl euler_step (moon\<lparr>pinpoint := True\<rparr>)
               [- (3 / 4), 0, 0, - 1, - 100, 1] = Inr ceq
        \<and> ceq ! 4 = - 10000 \<and> ceq ! 0 = 20 \<and> ceq ! 5 = 1229 / 1000"
    by (simp add: t)
  from shoot_coast [of False] hamiltonian_coast [of False] f p show ?thesis
    by (simp add: m)
qed




end
